theory Spec2Isabelle
  imports Main
begin

section \<open>Story services of the comment platform: data model\<close>

text \<open>
  The development embeds \<^verbatim>\<open>src/core/server/services/stories/index.ts\<close> (the functions
  \<^verbatim>\<open>remove\<close>, \<^verbatim>\<open>merge\<close>, \<^verbatim>\<open>sourceIsStory\<close> and \<^verbatim>\<open>isLiveEnabled\<close>) and the empty count
  structures of the comment model. Counts are JavaScript numbers holding integers; they are
  modelled as \<^typ>\<open>int\<close>. A \<^verbatim>\<open>Date\<close> is its number of milliseconds since the epoch, an
  \<^typ>\<open>int\<close> as well. A value that may be \<^verbatim>\<open>null\<close> or \<^verbatim>\<open>undefined\<close> is an \<^typ>\<open>'a option\<close>.
\<close>

type_synonym Date = int

datatype GQLSTORY_MODE = COMMENTS | QA | RATINGS_AND_REVIEWS

record CommentStatusCounts =
  APPROVED :: int
  NONE :: int
  PREMOD :: int
  REJECTED :: int
  SYSTEM_WITHHELD :: int

record CommentModerationCountsPerQueue =
  unmoderated :: int
  reported :: int
  pending :: int

record CommentModerationQueueCounts =
  total :: int
  queues :: CommentModerationCountsPerQueue

text \<open>The action counts are a sparse object from an action key to its count.\<close>

type_synonym EncodedCommentActionCounts = "string \<rightharpoonup> int"

record RelatedCommentCounts =
  action :: EncodedCommentActionCounts
  status :: CommentStatusCounts
  moderationQueue :: CommentModerationQueueCounts

text \<open>
  The live configuration has the one property \<^verbatim>\<open>enabled\<close>. The tenant holds it in full
  (a \<^typ>\<open>bool\<close>); a story's settings and the resolver's \<^verbatim>\<open>settings\<close> variable hold a
  \<^verbatim>\<open>Partial<LiveConfiguration>\<close>, where the property may be unset (a \<^typ>\<open>bool option\<close>).
\<close>

record 'e LiveConfiguration =
  enabled :: 'e

record StorySettings =
  live :: "(bool option) LiveConfiguration option"
  mode :: "GQLSTORY_MODE option"

record TenantResource =
  tenantID :: string

record Story = TenantResource +
  id_story :: string
  siteID :: string
  createdAt :: Date
  lastCommentedAt :: "Date option"
  settings :: StorySettings
  commentCounts :: RelatedCommentCounts

text \<open>Comments and comment actions carry the foreign key \<^verbatim>\<open>storyID\<close>.\<close>

record StoryResource = TenantResource +
  storyID :: string

record Comment = StoryResource +
  id_comment :: string

record CommentAction = StoryResource +
  id_action :: string

record Tenant =
  id_tenant :: string
  live_tenant :: "bool LiveConfiguration"

text \<open>The two configuration keys that \<^verbatim>\<open>config.get\<close> is asked for.\<close>

record Config =
  disable_live_updates :: bool
  disable_live_updates_timeout :: int

subsection \<open>The document store\<close>

text \<open>
  Every write that a repository function issues is appended to \<open>oplog\<close>, so that the
  order of the writes of one operation can be read off the final state, and a state that
  is unchanged has seen no write at all.
\<close>

datatype DbWrite =
  RemoveStoryActions string string
| RemoveStoryComments string string
| RemoveStory string string
| RemoveStories string "string list"
| MergeManyCommentStories string string "string list"
| MergeManyStoryActions string string "string list"
| UpdateStoryCounts string string

record Db =
  stories :: "Story list"
  comments :: "Comment list"
  commentActions :: "CommentAction list"
  oplog :: "DbWrite list"

text \<open>
  The collection primitives of the database driver, on a collection as the list of its
  documents: \<^verbatim>\<open>findOne\<close>, \<^verbatim>\<open>deleteMany\<close>, \<^verbatim>\<open>updateMany\<close>, \<^verbatim>\<open>findOneAndDelete\<close> and
  \<^verbatim>\<open>findOneAndUpdate\<close> (returning the updated document).
\<close>

definition findOne :: "('a \<Rightarrow> bool) \<Rightarrow> 'a list \<Rightarrow> 'a option" where
  "findOne q docs = List.find q docs"

definition deleteMany :: "('a \<Rightarrow> bool) \<Rightarrow> 'a list \<Rightarrow> nat \<times> 'a list" where
  "deleteMany q docs = (length (filter q docs), filter (\<lambda>d. \<not> q d) docs)"

definition updateMany :: "('a \<Rightarrow> bool) \<Rightarrow> ('a \<Rightarrow> 'a) \<Rightarrow> 'a list \<Rightarrow> nat \<times> 'a list" where
  "updateMany q upd docs =
     (length (filter (\<lambda>d. q d \<and> upd d \<noteq> d) docs), map (\<lambda>d. if q d then upd d else d) docs)"

fun findOneAndDelete :: "('a \<Rightarrow> bool) \<Rightarrow> 'a list \<Rightarrow> 'a option \<times> 'a list" where
  "findOneAndDelete q [] = (None, [])"
| "findOneAndDelete q (d # docs) =
     (if q d then (Some d, docs)
      else (case findOneAndDelete q docs of (r, docs') \<Rightarrow> (r, d # docs')))"

fun findOneAndUpdate :: "('a \<Rightarrow> bool) \<Rightarrow> ('a \<Rightarrow> 'a) \<Rightarrow> 'a list \<Rightarrow> 'a option \<times> 'a list" where
  "findOneAndUpdate q upd [] = (None, [])"
| "findOneAndUpdate q upd (d # docs) =
     (if q d then (Some (upd d), upd d # docs)
      else (case findOneAndUpdate q upd docs of (r, docs') \<Rightarrow> (r, d # docs')))"

section \<open>Count structures\<close>

text \<open>The empty count structures, as the comment model builds them.\<close>

definition createEmptyCommentModerationCountsPerQueue :: CommentModerationCountsPerQueue where
  "createEmptyCommentModerationCountsPerQueue = \<lparr>unmoderated = 0, reported = 0, pending = 0\<rparr>"

definition createEmptyCommentModerationQueueCounts :: CommentModerationQueueCounts where
  "createEmptyCommentModerationQueueCounts =
     \<lparr>total = 0, queues = createEmptyCommentModerationCountsPerQueue\<rparr>"

definition createEmptyCommentStatusCounts :: CommentStatusCounts where
  "createEmptyCommentStatusCounts =
     \<lparr>APPROVED = 0, NONE = 0, PREMOD = 0, REJECTED = 0, SYSTEM_WITHHELD = 0\<rparr>"

definition createEmptyRelatedCommentCounts :: RelatedCommentCounts where
  "createEmptyRelatedCommentCounts =
     \<lparr>action = Map.empty, status = createEmptyCommentStatusCounts,
      moderationQueue = createEmptyCommentModerationQueueCounts\<rparr>"

text \<open>
  Modelled from the spec: \<^verbatim>\<open>mergeCommentStatusCount\<close> of the comment model is not among the
  source files. Section 4.1: a variadic coordinate-wise sum over all inputs; the status
  keys are the closed set of the five enumerated statuses.
\<close>

definition mergeCommentStatusCount :: "CommentStatusCounts list \<Rightarrow> CommentStatusCounts" where
  "mergeCommentStatusCount statusCounts =
     \<lparr>APPROVED = sum_list (map APPROVED statusCounts),
      NONE = sum_list (map NONE statusCounts),
      PREMOD = sum_list (map PREMOD statusCounts),
      REJECTED = sum_list (map REJECTED statusCounts),
      SYSTEM_WITHHELD = sum_list (map SYSTEM_WITHHELD statusCounts)\<rparr>"

text \<open>
  Modelled from the spec: \<^verbatim>\<open>mergeCommentModerationQueueCount\<close> of the comment model is not
  among the source files. Section 4.1: a variadic coordinate-wise sum, here over
  \<^verbatim>\<open>total\<close> and the three queues.
\<close>

definition mergeCommentModerationQueueCount ::
    "CommentModerationQueueCounts list \<Rightarrow> CommentModerationQueueCounts" where
  "mergeCommentModerationQueueCount moderationQueues =
     \<lparr>total = sum_list (map total moderationQueues),
      queues =
        \<lparr>unmoderated = sum_list (map (\<lambda>q. unmoderated (queues q)) moderationQueues),
         reported = sum_list (map (\<lambda>q. reported (queues q)) moderationQueues),
         pending = sum_list (map (\<lambda>q. pending (queues q)) moderationQueues)\<rparr>\<rparr>"

text \<open>The count an action-count object holds for a key, zero when the key is missing.\<close>

definition countOrZero :: "EncodedCommentActionCounts \<Rightarrow> string \<Rightarrow> int" where
  "countOrZero counts key = (case counts key of None \<Rightarrow> 0 | Some n \<Rightarrow> n)"

text \<open>
  Modelled from the spec: \<^verbatim>\<open>mergeCommentActionCounts\<close> of the action model is not among the
  source files. Section 4.1: a coordinate-wise sum over the union of the keys of all
  inputs, a key missing from an input counting as zero there. A key that no input has
  stays absent from the result.
\<close>

definition mergeCommentActionCounts ::
    "EncodedCommentActionCounts list \<Rightarrow> EncodedCommentActionCounts" where
  "mergeCommentActionCounts actionCounts =
     (\<lambda>key. if list_ex (\<lambda>counts. counts key \<noteq> None) actionCounts
        then Some (sum_list (map (\<lambda>counts. countOrZero counts key) actionCounts))
        else None)"

text \<open>
  Modelled from the spec: \<^verbatim>\<open>calculateTotalCommentCount\<close> of the comment model is not among
  the source files. Section 4.1: the sum across all status keys.
\<close>

definition calculateTotalCommentCount :: "CommentStatusCounts \<Rightarrow> int" where
  "calculateTotalCommentCount counts =
     APPROVED counts + NONE counts + PREMOD counts + REJECTED counts + SYSTEM_WITHHELD counts"

section \<open>Repository operations\<close>

text \<open>
  The repository functions that the services call live in the story, comment and action
  models, which are not among the source files. Each is one call of a collection
  primitive, scoped by the tenant id; a write appends its entry to the log.
\<close>

text \<open>
  Modelled from the spec: \<^verbatim>\<open>retrieveStory\<close> of the story model is not among the source
  files. Sections 4.2 and 6: a story is identified by its tenant id and story id; the
  lookup gives the record or null.
\<close>

definition retrieveStory :: "Db \<Rightarrow> string \<Rightarrow> string \<Rightarrow> Story option" where
  "retrieveStory mongo tid sid =
     findOne (\<lambda>s. tenantID s = tid \<and> id_story s = sid) (stories mongo)"

text \<open>
  Modelled from the spec: \<^verbatim>\<open>retrieveManyStories\<close> of the story model is not among the
  source files. Section 4.4, validation 3: the referenced stories are fetched in one
  batch, one result per requested id in the order of the ids, null for a missing one.
\<close>

definition retrieveManyStories :: "Db \<Rightarrow> string \<Rightarrow> string list \<Rightarrow> Story option list" where
  "retrieveManyStories mongo tid ids = map (retrieveStory mongo tid) ids"

text \<open>
  Modelled from the spec: the helper \<^verbatim>\<open>isNonNullArray\<close> is not among the source files.
  Section 4.4, validation 3: no fetched entry is null.
\<close>

definition isNonNullArray :: "'a option list \<Rightarrow> bool" where
  "isNonNullArray array = list_all (\<lambda>item. item \<noteq> None) array"

text \<open>
  Modelled from the spec: \<^verbatim>\<open>removeStoryActions\<close> of the action model is not among the
  source files. Section 4.2: a cascading delete of the actions of a story that returns
  the deleted count.
\<close>

definition removeStoryActions :: "Db \<Rightarrow> string \<Rightarrow> string \<Rightarrow> nat \<times> Db" where
  "removeStoryActions mongo tid sid =
     (case deleteMany (\<lambda>a. tenantID a = tid \<and> storyID a = sid) (commentActions mongo) of
        (deletedCount, docs) \<Rightarrow>
          (deletedCount,
           mongo\<lparr>commentActions := docs, oplog := oplog mongo @ [RemoveStoryActions tid sid]\<rparr>))"

text \<open>
  Modelled from the spec: \<^verbatim>\<open>removeStoryComments\<close> of the comment model is not among the
  source files. Section 4.2: a cascading delete of the comments of a story that returns
  the deleted count.
\<close>

definition removeStoryComments :: "Db \<Rightarrow> string \<Rightarrow> string \<Rightarrow> nat \<times> Db" where
  "removeStoryComments mongo tid sid =
     (case deleteMany (\<lambda>c. tenantID c = tid \<and> storyID c = sid) (comments mongo) of
        (deletedCount, docs) \<Rightarrow>
          (deletedCount,
           mongo\<lparr>comments := docs, oplog := oplog mongo @ [RemoveStoryComments tid sid]\<rparr>))"

text \<open>
  Modelled from the spec: \<^verbatim>\<open>removeStory\<close> of the story model is not among the source
  files. Section 4.2: deletes the story record and gives the removed record, or null when
  there was none.
\<close>

definition removeStory :: "Db \<Rightarrow> string \<Rightarrow> string \<Rightarrow> Story option \<times> Db" where
  "removeStory mongo tid sid =
     (case findOneAndDelete (\<lambda>s. tenantID s = tid \<and> id_story s = sid) (stories mongo) of
        (removed, docs) \<Rightarrow>
          (removed, mongo\<lparr>stories := docs, oplog := oplog mongo @ [RemoveStory tid sid]\<rparr>))"

text \<open>
  Modelled from the spec: \<^verbatim>\<open>removeStories\<close> of the story model is not among the source
  files. Section 4.2: deletes the story records of the given ids and returns the deleted
  count.
\<close>

definition removeStories :: "Db \<Rightarrow> string \<Rightarrow> string list \<Rightarrow> nat \<times> Db" where
  "removeStories mongo tid ids =
     (case deleteMany (\<lambda>s. tenantID s = tid \<and> id_story s \<in> set ids) (stories mongo) of
        (deletedCount, docs) \<Rightarrow>
          (deletedCount, mongo\<lparr>stories := docs, oplog := oplog mongo @ [RemoveStories tid ids]\<rparr>))"

text \<open>
  Modelled from the spec: \<^verbatim>\<open>mergeManyCommentStories\<close> of the comment model is not among
  the source files. Section 4.4, execution 1: every comment whose \<^verbatim>\<open>storyID\<close> is one of
  the source ids is reassigned to the destination id; the modified count is returned.
\<close>

definition mergeManyCommentStories :: "Db \<Rightarrow> string \<Rightarrow> string \<Rightarrow> string list \<Rightarrow> nat \<times> Db" where
  "mergeManyCommentStories mongo tid newStoryID oldStoryIDs =
     (case updateMany (\<lambda>c. tenantID c = tid \<and> storyID c \<in> set oldStoryIDs)
             (\<lambda>c. c\<lparr>storyID := newStoryID\<rparr>) (comments mongo) of
        (modifiedCount, docs) \<Rightarrow>
          (modifiedCount,
           mongo\<lparr>comments := docs,
             oplog := oplog mongo @ [MergeManyCommentStories tid newStoryID oldStoryIDs]\<rparr>))"

text \<open>
  Modelled from the spec: \<^verbatim>\<open>mergeManyStoryActions\<close> of the action model is not among the
  source files. Section 4.4, execution 2: the actions that reference a source story are
  reassigned to the destination in the same way.
\<close>

definition mergeManyStoryActions :: "Db \<Rightarrow> string \<Rightarrow> string \<Rightarrow> string list \<Rightarrow> nat \<times> Db" where
  "mergeManyStoryActions mongo tid newStoryID oldStoryIDs =
     (case updateMany (\<lambda>a. tenantID a = tid \<and> storyID a \<in> set oldStoryIDs)
             (\<lambda>a. a\<lparr>storyID := newStoryID\<rparr>) (commentActions mongo) of
        (modifiedCount, docs) \<Rightarrow>
          (modifiedCount,
           mongo\<lparr>commentActions := docs,
             oplog := oplog mongo @ [MergeManyStoryActions tid newStoryID oldStoryIDs]\<rparr>))"

text \<open>
  Modelled from the spec: \<^verbatim>\<open>updateStoryCounts\<close> of the story model is not among the
  source files. Section 4.2: replaces the embedded counts of the story with the supplied
  value and gives the record after the update, or null when the record is not there.
\<close>

definition updateStoryCounts ::
    "Db \<Rightarrow> string \<Rightarrow> string \<Rightarrow> RelatedCommentCounts \<Rightarrow> Story option \<times> Db" where
  "updateStoryCounts mongo tid sid counts =
     (case findOneAndUpdate (\<lambda>s. tenantID s = tid \<and> id_story s = sid)
             (\<lambda>s. s\<lparr>commentCounts := counts\<rparr>) (stories mongo) of
        (updated, docs) \<Rightarrow>
          (updated, mongo\<lparr>stories := docs, oplog := oplog mongo @ [UpdateStoryCounts tid sid]\<rparr>))"

section \<open>The story services\<close>

text \<open>
  A thrown \<^verbatim>\<open>Error\<close> is a value: one constructor per \<^verbatim>\<open>throw\<close> of \<^verbatim>\<open>remove\<close> and
  \<^verbatim>\<open>merge\<close>, named after its message. A service returns the error or its result
  (\<open>None\<close> for \<^verbatim>\<open>null\<close>), together with the store after its writes.
\<close>

datatype error =
  AssetHasCommentsCannotRemove
| CannotMergeFromToTheSameStoryID
| CannotFindAllTheStories
| CannotMergeStoriesOnDifferentSites
| CannotMergeStoriesNotInCommentsMode

subsection \<open>remove\<close>

definition remove :: "Db \<Rightarrow> Tenant \<Rightarrow> string \<Rightarrow> bool \<Rightarrow> (error + Story option) \<times> Db" where
  "remove mongo tenant sid includeComments =
     (case retrieveStory mongo (id_tenant tenant) sid of
        None \<Rightarrow> (Inr None, mongo)
      | Some story \<Rightarrow>
          if includeComments then
            (case removeStoryActions mongo (id_tenant tenant) (id_story story) of
               (removedActions, mongo1) \<Rightarrow>
            (case removeStoryComments mongo1 (id_tenant tenant) (id_story story) of
               (removedComments, mongo2) \<Rightarrow>
            (case removeStory mongo2 (id_tenant tenant) (id_story story) of
               (None, mongo3) \<Rightarrow> (Inr None, mongo3)
             | (Some removedStory, mongo3) \<Rightarrow> (Inr (Some removedStory), mongo3))))
          else if calculateTotalCommentCount (status (commentCounts story)) > 0 then
            (Inl AssetHasCommentsCannotRemove, mongo)
          else
            (case removeStory mongo (id_tenant tenant) (id_story story) of
               (None, mongo3) \<Rightarrow> (Inr None, mongo3)
             | (Some removedStory, mongo3) \<Rightarrow> (Inr (Some removedStory), mongo3)))"

subsection \<open>merge\<close>

text \<open>
  \<^verbatim>\<open>uniq\<close> of the utility library: the values in the order of their first occurrence,
  each kept once. The loop pushes a value onto the result unless the result has it.
\<close>

fun uniq_into :: "'a list \<Rightarrow> 'a list \<Rightarrow> 'a list" where
  "uniq_into result [] = result"
| "uniq_into result (x # xs) =
     (if x \<in> set result then uniq_into result xs else uniq_into (result @ [x]) xs)"

definition uniq :: "'a list \<Rightarrow> 'a list" where
  "uniq array = uniq_into [] array"

text \<open>
  \<^verbatim>\<open>resolveStoryMode\<close> of the story model is not among the source files, and the spec
  says only that the resolved mode depends on the story's settings and on the tenant. It
  is a parameter of \<open>merge\<close>: what is proved holds for every such function.

  After \<open>isNonNullArray\<close> has passed, every fetched entry is a story, so \<open>map the\<close>
  reads the stories. The destructuring \<^verbatim>\<open>[, ...sourceStories] = stories\<close> is \<open>tl\<close>.
\<close>

definition merge ::
    "(StorySettings \<Rightarrow> Tenant \<Rightarrow> GQLSTORY_MODE) \<Rightarrow> Db \<Rightarrow> Tenant \<Rightarrow> string \<Rightarrow> string list
      \<Rightarrow> (error + Story option) \<times> Db" where
  "merge resolveStoryMode mongo tenant destinationID sourceIDs =
     (if length sourceIDs = 0 then (Inr None, mongo)
      else
        let storyIDs = destinationID # sourceIDs in
        if length (uniq storyIDs) \<noteq> length storyIDs then
          (Inl CannotMergeFromToTheSameStoryID, mongo)
        else
          let fetched = retrieveManyStories mongo (id_tenant tenant) storyIDs in
          if \<not> isNonNullArray fetched then (Inl CannotFindAllTheStories, mongo)
          else
            let found = map the fetched in
            if length (uniq (map siteID found)) > 1 then
              (Inl CannotMergeStoriesOnDifferentSites, mongo)
            else if list_ex (\<lambda>s. resolveStoryMode (settings s) tenant \<noteq> COMMENTS) found then
              (Inl CannotMergeStoriesNotInCommentsMode, mongo)
            else
              (case mergeManyCommentStories mongo (id_tenant tenant) destinationID sourceIDs of
                 (updatedComments, mongo1) \<Rightarrow>
              (case mergeManyStoryActions mongo1 (id_tenant tenant) destinationID sourceIDs of
                 (updatedActions, mongo2) \<Rightarrow>
                let sourceStories = tl found;
                    counts =
                      \<lparr>action = mergeCommentActionCounts
                         (map (\<lambda>s. action (commentCounts s)) sourceStories),
                       status = mergeCommentStatusCount
                         (map (\<lambda>s. status (commentCounts s)) sourceStories),
                       moderationQueue = mergeCommentModerationQueueCount
                         (map (\<lambda>s. moderationQueue (commentCounts s)) sourceStories)\<rparr>
                in
                (case updateStoryCounts mongo2 (id_tenant tenant) destinationID counts of
                   (None, mongo3) \<Rightarrow> (Inr None, mongo3)
                 | (Some destinationStory, mongo3) \<Rightarrow>
                     (case removeStories mongo3 (id_tenant tenant) sourceIDs of
                        (deletedCount, mongo4) \<Rightarrow> (Inr (Some destinationStory), mongo4))))))"

subsection \<open>isLiveEnabled\<close>

text \<open>
  The source of the decision is a story or a bare live configuration; the code tells them
  apart by probing the object for a truthy \<^verbatim>\<open>id\<close> and \<^verbatim>\<open>tenantID\<close> (a string is truthy
  when it is not empty). A live configuration has neither property.
\<close>

datatype LiveEnabledSource =
  StorySource Story
| LiveConfigurationSource "(bool option) LiveConfiguration"

fun sourceIsStory :: "LiveEnabledSource \<Rightarrow> bool" where
  "sourceIsStory (StorySource s) = (if id_story s \<noteq> [] \<and> tenantID s \<noteq> [] then True else False)"
| "sourceIsStory (LiveConfigurationSource c) = False"

text \<open>
  \<^verbatim>\<open>defaultTo\<close> of the utility library: the value, or the default when the value is
  \<^verbatim>\<open>null\<close> or \<^verbatim>\<open>undefined\<close>.
\<close>

definition defaultTo :: "'a option \<Rightarrow> 'a \<Rightarrow> 'a" where
  "defaultTo v defaultValue = (case v of None \<Rightarrow> defaultValue | Some x \<Rightarrow> x)"

text \<open>
  The property \<^verbatim>\<open>enabled\<close> of a source that is read as settings: a story object has no
  such property, so reading it gives \<^verbatim>\<open>undefined\<close>.
\<close>

fun enabledOfSource :: "LiveEnabledSource \<Rightarrow> bool option" where
  "enabledOfSource (StorySource s) = None"
| "enabledOfSource (LiveConfigurationSource c) = enabled c"

text \<open>
  \<^verbatim>\<open>DateTime.fromJSDate(d).plus({ milliseconds: timeout }).toJSDate()\<close> is the instant
  \<open>d + timeout\<close>; two dates compare by their instants. A \<^verbatim>\<open>Date\<close> object is truthy, so
  \<^verbatim>\<open>source.lastCommentedAt || source.createdAt\<close> falls back exactly when the first is unset.
  The test of the timeout and the nested test of the instant are one conjunction.
  Inside the branch guarded by \<open>sourceIsStory\<close> the source is read as a story; the
  case of a live configuration there is never reached and reads the settings as the
  last branch does.
\<close>

definition isLiveEnabled :: "Config \<Rightarrow> Tenant \<Rightarrow> LiveEnabledSource \<Rightarrow> Date \<Rightarrow> bool" where
  "isLiveEnabled config tenant source now =
     (if disable_live_updates config then False
      else if sourceIsStory source then
        (case source of
           StorySource story \<Rightarrow>
             let timeout = disable_live_updates_timeout config;
                 lastActivity =
                   (case lastCommentedAt story of None \<Rightarrow> createdAt story | Some d \<Rightarrow> d)
             in
             if timeout > 0 \<and> lastActivity + timeout \<le> now then False
             else
               (case live (settings story) of
                  None \<Rightarrow> enabled (live_tenant tenant)
                | Some liveSettings \<Rightarrow>
                    defaultTo (enabled liveSettings) (enabled (live_tenant tenant)))
         | LiveConfigurationSource c \<Rightarrow> defaultTo (enabled c) (enabled (live_tenant tenant)))
      else defaultTo (enabledOfSource source) (enabled (live_tenant tenant)))"

section \<open>Example data\<close>

text \<open>
  An instance of the mode resolution for running \<open>merge\<close> on concrete stories: the
  story's own mode, and comments mode when it has none.
\<close>

definition storyModeOrComments :: "StorySettings \<Rightarrow> Tenant \<Rightarrow> GQLSTORY_MODE" where
  "storyModeOrComments s tenant = (case mode s of None \<Rightarrow> COMMENTS | Some m \<Rightarrow> m)"

definition exampleTenant :: Tenant where
  "exampleTenant = \<lparr>id_tenant = ''t'', live_tenant = \<lparr>enabled = True\<rparr>\<rparr>"

definition approvedOnly :: "int \<Rightarrow> RelatedCommentCounts" where
  "approvedOnly n =
     \<lparr>action = Map.empty,
      status = \<lparr>APPROVED = n, NONE = 0, PREMOD = 0, REJECTED = 0, SYSTEM_WITHHELD = 0\<rparr>,
      moderationQueue = \<lparr>total = 0, queues = \<lparr>unmoderated = 0, reported = 0, pending = 0\<rparr>\<rparr>\<rparr>"

text \<open>
  A story of tenant \<open>t\<close> in comments mode, created at instant 1000 and never commented,
  whose own live setting is enabled, with \<open>n\<close> approved comments.
\<close>

definition exampleStory :: "string \<Rightarrow> string \<Rightarrow> int \<Rightarrow> Story" where
  "exampleStory sid site n =
     \<lparr>tenantID = ''t'', id_story = sid, siteID = site, createdAt = 1000, lastCommentedAt = None,
      settings = \<lparr>live = Some \<lparr>enabled = Some True\<rparr>, mode = None\<rparr>,
      commentCounts = approvedOnly n\<rparr>"

text \<open>
  The scenario of the spec: a destination \<open>D\<close> with 2 approved comments and the sources
  \<open>S1\<close> (3 approved) and \<open>S2\<close> (1 approved), all on one site.
\<close>

definition exampleDb :: Db where
  "exampleDb =
     \<lparr>stories = [exampleStory ''D'' ''site'' 2, exampleStory ''S1'' ''site'' 3,
        exampleStory ''S2'' ''site'' 1],
      comments = [\<lparr>tenantID = ''t'', storyID = ''S1'', id_comment = ''c1''\<rparr>,
        \<lparr>tenantID = ''t'', storyID = ''S2'', id_comment = ''c2''\<rparr>],
      commentActions = [\<lparr>tenantID = ''t'', storyID = ''S1'', id_action = ''a1''\<rparr>],
      oplog = []\<rparr>"

definition exampleMergedDb :: Db where
  "exampleMergedDb =
     \<lparr>stories = [exampleStory ''D'' ''site'' 4],
      comments = [\<lparr>tenantID = ''t'', storyID = ''D'', id_comment = ''c1''\<rparr>,
        \<lparr>tenantID = ''t'', storyID = ''D'', id_comment = ''c2''\<rparr>],
      commentActions = [\<lparr>tenantID = ''t'', storyID = ''D'', id_action = ''a1''\<rparr>],
      oplog = [MergeManyCommentStories ''t'' ''D'' [''S1'', ''S2''],
        MergeManyStoryActions ''t'' ''D'' [''S1'', ''S2''],
        UpdateStoryCounts ''t'' ''D'', RemoveStories ''t'' [''S1'', ''S2'']]\<rparr>"

text \<open>The same destination with a source on another site.\<close>

definition exampleCrossSiteDb :: Db where
  "exampleCrossSiteDb =
     \<lparr>stories = [exampleStory ''D'' ''site'' 2, exampleStory ''S1'' ''other'' 3],
      comments = [\<lparr>tenantID = ''t'', storyID = ''S1'', id_comment = ''c1''\<rparr>],
      commentActions = [],
      oplog = []\<rparr>"


definition exampleDisabledConfig :: Config where
  "exampleDisabledConfig = \<lparr>disable_live_updates = True, disable_live_updates_timeout = 0\<rparr>"

section \<open>Properties\<close>

subsection \<open>Auxiliary facts\<close>

lemmas example_defs = exampleTenant_def exampleDb_def exampleStory_def approvedOnly_def
  storyModeOrComments_def

lemmas service_defs = merge_def remove_def uniq_def retrieveManyStories_def retrieveStory_def
  findOne_def isNonNullArray_def mergeManyCommentStories_def mergeManyStoryActions_def
  updateStoryCounts_def removeStories_def removeStory_def removeStoryActions_def
  removeStoryComments_def deleteMany_def updateMany_def
  mergeCommentActionCounts_def mergeCommentStatusCount_def mergeCommentModerationQueueCount_def
  calculateTotalCommentCount_def countOrZero_def Let_def

lemma uniq_into_set: "set (uniq_into result xs) = set result \<union> set xs"
  by (induction xs arbitrary: result) auto

lemma uniq_into_distinct: "distinct result \<Longrightarrow> distinct (uniq_into result xs)"
  by (induction xs arbitrary: result) auto

lemma length_uniq: "length (uniq xs) = card (set xs)"
proof -
  have "distinct (uniq xs)" by (simp add: uniq_def uniq_into_distinct)
  then have "card (set (uniq xs)) = length (uniq xs)" by (rule distinct_card)
  moreover have "set (uniq xs) = set xs" by (simp add: uniq_def uniq_into_set)
  ultimately show ?thesis by simp
qed

lemma uniq_length_iff_distinct: "length (uniq xs) = length xs \<longleftrightarrow> distinct xs"
  by (auto simp: length_uniq card_distinct distinct_card)

lemma uniq_length_gt_one:
  "1 < length (uniq xs) \<longleftrightarrow> (\<exists>a \<in> set xs. \<exists>b \<in> set xs. a \<noteq> b)"
proof
  assume "1 < length (uniq xs)"
  then have c: "1 < card (set xs)" by (simp add: length_uniq)
  show "\<exists>a \<in> set xs. \<exists>b \<in> set xs. a \<noteq> b"
  proof (rule ccontr)
    assume "\<not> (\<exists>a \<in> set xs. \<exists>b \<in> set xs. a \<noteq> b)"
    then have "\<forall>a \<in> set xs. \<forall>b \<in> set xs. a = b" by blast
    then have "card (set xs) \<le> 1" by (simp add: card_le_Suc0_iff_eq)
    with c show False by simp
  qed
next
  assume "\<exists>a \<in> set xs. \<exists>b \<in> set xs. a \<noteq> b"
  then obtain a b where ab: "a \<in> set xs" "b \<in> set xs" "a \<noteq> b" by blast
  then have "{a, b} \<subseteq> set xs" by simp
  then have "card {a, b} \<le> card (set xs)" by (simp add: card_mono)
  with ab show "1 < length (uniq xs)" by (simp add: length_uniq)
qed

lemma findOneAndDelete_fst: "fst (findOneAndDelete q docs) = List.find q docs"
  by (induction docs) (auto split: prod.splits)

lemma findOneAndUpdate_fst:
  "fst (findOneAndUpdate q upd docs) = map_option upd (List.find q docs)"
  by (induction docs) (auto split: prod.splits)

lemma findOneAndUpdate_find:
  assumes "\<And>d. q d \<Longrightarrow> q (upd d)"
  shows "List.find q (snd (findOneAndUpdate q upd docs)) = map_option upd (List.find q docs)"
  using assms by (induction docs) (auto split: prod.splits)

lemma find_filter_keeps:
  assumes "\<And>d. q d \<Longrightarrow> r d"
  shows "List.find q (filter r docs) = List.find q docs"
  using assms by (induction docs) auto

lemma find_Some_holds: "List.find q docs = Some d \<Longrightarrow> q d"
  by (induction docs) (auto split: if_splits)

lemma retrieveStory_None_iff:
  "retrieveStory mongo tid sid = None \<longleftrightarrow>
     \<not> list_ex (\<lambda>s. tenantID s = tid \<and> id_story s = sid) (stories mongo)"
  by (auto simp: retrieveStory_def findOne_def find_None_iff list_ex_iff)

lemma retrieveStory_Some_ids:
  "retrieveStory mongo tid sid = Some story \<Longrightarrow> tenantID story = tid \<and> id_story story = sid"
  unfolding retrieveStory_def findOne_def by (drule find_Some_holds) simp

lemma isNonNullArray_iff: "isNonNullArray xs \<longleftrightarrow> (\<forall>x \<in> set xs. x \<noteq> None)"
  by (simp add: isNonNullArray_def list_all_iff)

subsection \<open>Merge: the guards\<close>

text \<open>
  Claim C2, as the code has it. A merge whose source-id list is empty returns
  \<^verbatim>\<open>null\<close>: the guard logs a warning and returns, it does not throw. The store is left
  as it was: no story, comment or action is written.
\<close>

theorem merge_empty_sources_returns_null:
  "merge resolveStoryMode mongo tenant destinationID [] = (Inr None, mongo)"
  by (simp add: merge_def)

text \<open>
  Claim C2 as stated asks for an error. On the example store, merging into \<open>D\<close> from
  no source gives the result \<^verbatim>\<open>null\<close>, which is not an error.
\<close>

theorem merge_empty_sources_not_an_error:
  "merge storyModeOrComments exampleDb exampleTenant ''D'' [] = (Inr None, exampleDb)
   \<and> \<not> isl (fst (merge storyModeOrComments exampleDb exampleTenant ''D'' []))"
  by (simp add: merge_def)

text \<open>
  Claim C4. When the destination id is among the source ids, or an id occurs twice among
  the sources (together: the destination followed by the sources is not a list of
  distinct ids), the merge throws "cannot merge from/to the same story ID" and the store
  is left as it was.
\<close>

theorem merge_duplicate_ids_rejected:
  assumes "\<not> distinct (destinationID # sourceIDs)"
  shows "merge resolveStoryMode mongo tenant destinationID sourceIDs
           = (Inl CannotMergeFromToTheSameStoryID, mongo)"
proof -
  from assms have ne: "sourceIDs \<noteq> []" by auto
  from assms
  have "length (uniq (destinationID # sourceIDs)) \<noteq> length (destinationID # sourceIDs)"
    by (simp only: uniq_length_iff_distinct not_False_eq_True)
  with ne show ?thesis by (simp add: merge_def Let_def)
qed

theorem merge_duplicate_ids_rejected_witness:
  "\<not> distinct [''D'', ''S1'', ''D'']
   \<and> merge storyModeOrComments exampleDb exampleTenant ''D'' [''S1'', ''D'']
       = (Inl CannotMergeFromToTheSameStoryID, exampleDb)"
proof -
  have h: "\<not> distinct [''D'', ''S1'', ''D'']" by simp
  from merge_duplicate_ids_rejected [OF h] h show ?thesis by simp
qed

subsection \<open>Live updates\<close>

text \<open>
  Claim C7. Whenever the configuration flag \<^verbatim>\<open>disable_live_updates\<close> is set,
  \<open>isLiveEnabled\<close> is false, for every tenant, every source (a story or a bare live
  configuration, whatever its own setting) and every instant.
\<close>

theorem isLiveEnabled_disabled_by_config:
  assumes "disable_live_updates config"
  shows "isLiveEnabled config tenant source now = False"
  using assms by (simp add: isLiveEnabled_def)

theorem isLiveEnabled_disabled_by_config_witness:
  "disable_live_updates exampleDisabledConfig
   \<and> isLiveEnabled exampleDisabledConfig exampleTenant
        (LiveConfigurationSource \<lparr>enabled = Some True\<rparr>) 0 = False"
proof -
  have h: "disable_live_updates exampleDisabledConfig" by (simp add: exampleDisabledConfig_def)
  from isLiveEnabled_disabled_by_config [OF h] h show ?thesis by simp
qed



subsection \<open>Remove\<close>

text \<open>
  Claim C10. When no story of the tenant has the given id, \<open>remove\<close> returns
  \<^verbatim>\<open>null\<close>, whatever \<^verbatim>\<open>includeComments\<close> is: it raises no error and leaves the store as
  it was.
\<close>

theorem remove_missing_story_returns_null:
  assumes "\<not> list_ex (\<lambda>s. tenantID s = id_tenant tenant \<and> id_story s = sid) (stories mongo)"
  shows "remove mongo tenant sid includeComments = (Inr None, mongo)"
proof -
  from assms have "retrieveStory mongo (id_tenant tenant) sid = None"
    by (simp only: retrieveStory_None_iff not_False_eq_True)
  then show ?thesis by (simp add: remove_def)
qed

theorem remove_missing_story_returns_null_witness:
  "\<not> list_ex (\<lambda>s. tenantID s = id_tenant exampleTenant \<and> id_story s = ''nowhere'')
        (stories exampleDb)
   \<and> remove exampleDb exampleTenant ''nowhere'' True = (Inr None, exampleDb)"
proof -
  have h: "\<not> list_ex (\<lambda>s. tenantID s = id_tenant exampleTenant \<and> id_story s = ''nowhere'')
        (stories exampleDb)"
    by (simp add: example_defs)
  from remove_missing_story_returns_null [OF h] h show ?thesis by simp
qed

text \<open>
  Claim C5. For an existing story whose five status counts sum to more than zero,
  \<open>remove\<close> without \<^verbatim>\<open>includeComments\<close> throws "asset has comments, cannot remove" (the
  has-linked-comments error) and leaves the store as it was: the story and its comments
  stay.
\<close>

theorem remove_with_comments_refused:
  assumes "retrieveStory mongo (id_tenant tenant) sid = Some story"
    and "0 < APPROVED (status (commentCounts story)) + NONE (status (commentCounts story))
           + PREMOD (status (commentCounts story)) + REJECTED (status (commentCounts story))
           + SYSTEM_WITHHELD (status (commentCounts story))"
  shows "remove mongo tenant sid False = (Inl AssetHasCommentsCannotRemove, mongo)"
  using assms by (simp add: remove_def calculateTotalCommentCount_def)

theorem remove_with_comments_refused_witness:
  "retrieveStory exampleDb (id_tenant exampleTenant) ''S1'' = Some (exampleStory ''S1'' ''site'' 3)
   \<and> 0 < APPROVED (status (commentCounts (exampleStory ''S1'' ''site'' 3)))
         + NONE (status (commentCounts (exampleStory ''S1'' ''site'' 3)))
         + PREMOD (status (commentCounts (exampleStory ''S1'' ''site'' 3)))
         + REJECTED (status (commentCounts (exampleStory ''S1'' ''site'' 3)))
         + SYSTEM_WITHHELD (status (commentCounts (exampleStory ''S1'' ''site'' 3)))
   \<and> remove exampleDb exampleTenant ''S1'' False = (Inl AssetHasCommentsCannotRemove, exampleDb)"
proof -
  have h1: "retrieveStory exampleDb (id_tenant exampleTenant) ''S1''
              = Some (exampleStory ''S1'' ''site'' 3)"
    by (simp add: example_defs retrieveStory_def findOne_def)
  have h2: "0 < APPROVED (status (commentCounts (exampleStory ''S1'' ''site'' 3)))
         + NONE (status (commentCounts (exampleStory ''S1'' ''site'' 3)))
         + PREMOD (status (commentCounts (exampleStory ''S1'' ''site'' 3)))
         + REJECTED (status (commentCounts (exampleStory ''S1'' ''site'' 3)))
         + SYSTEM_WITHHELD (status (commentCounts (exampleStory ''S1'' ''site'' 3)))"
    by (simp add: example_defs)
  from remove_with_comments_refused [OF h1 h2] h1 h2 show ?thesis by simp
qed

text \<open>
  Claim C8. For an existing story, \<open>remove\<close> with \<^verbatim>\<open>includeComments\<close> issues exactly
  three writes, in this order: it removes the story's actions, then the story's comments,
  then the story record itself, which it returns. Each write has its effect on the store.
\<close>

theorem remove_cascade_order:
  assumes "retrieveStory mongo (id_tenant tenant) sid = Some story"
  shows "remove mongo tenant sid True =
     (Inr (Some story),
      mongo\<lparr>stories :=
          snd (findOneAndDelete (\<lambda>s. tenantID s = id_tenant tenant \<and> id_story s = sid)
                 (stories mongo)),
        comments :=
          filter (\<lambda>c. \<not> (tenantID c = id_tenant tenant \<and> storyID c = sid)) (comments mongo),
        commentActions :=
          filter (\<lambda>a. \<not> (tenantID a = id_tenant tenant \<and> storyID a = sid))
            (commentActions mongo),
        oplog := oplog mongo @
          [RemoveStoryActions (id_tenant tenant) sid,
           RemoveStoryComments (id_tenant tenant) sid,
           RemoveStory (id_tenant tenant) sid]\<rparr>)"
proof -
  let ?q = "\<lambda>s. tenantID s = id_tenant tenant \<and> id_story s = sid"
  from assms have ids: "id_story story = sid" by (simp add: retrieveStory_Some_ids)
  from assms have "fst (findOneAndDelete ?q (stories mongo)) = Some story"
    by (simp add: findOneAndDelete_fst retrieveStory_def findOne_def)
  then obtain docs where fd: "findOneAndDelete ?q (stories mongo) = (Some story, docs)"
    by (cases "findOneAndDelete ?q (stories mongo)") simp
  show ?thesis
    using assms ids fd
    by (simp add: remove_def removeStoryActions_def removeStoryComments_def removeStory_def
        deleteMany_def)
qed

theorem remove_cascade_order_witness:
  "retrieveStory exampleDb (id_tenant exampleTenant) ''S1'' = Some (exampleStory ''S1'' ''site'' 3)
   \<and> remove exampleDb exampleTenant ''S1'' True =
     (Inr (Some (exampleStory ''S1'' ''site'' 3)),
      \<lparr>stories = [exampleStory ''D'' ''site'' 2, exampleStory ''S2'' ''site'' 1],
       comments = [\<lparr>tenantID = ''t'', storyID = ''S2'', id_comment = ''c2''\<rparr>],
       commentActions = [],
       oplog = [RemoveStoryActions ''t'' ''S1'', RemoveStoryComments ''t'' ''S1'',
         RemoveStory ''t'' ''S1'']\<rparr>)"
proof -
  have h: "retrieveStory exampleDb (id_tenant exampleTenant) ''S1''
             = Some (exampleStory ''S1'' ''site'' 3)"
    by (simp add: example_defs retrieveStory_def findOne_def)
  from remove_cascade_order [OF h] h show ?thesis by (simp add: example_defs)
qed

subsection \<open>Merge: validation before mutation\<close>

text \<open>
  Claim C3. Take a merge that gets past the empty-list guard, so that the referenced
  stories (the destination and the sources) are validated. When a referenced story is
  missing from the batch fetch, or two referenced stories have different site ids, or a
  referenced story does not resolve to comments mode, the merge throws an error and the
  store is left as it was: no comment or action has been reassigned, and no story record
  has been updated or deleted.
\<close>

theorem merge_validation_fails_before_mutation:
  assumes ne: "sourceIDs \<noteq> []"
    and fail:
      "(\<exists>i \<in> set (destinationID # sourceIDs). retrieveStory mongo (id_tenant tenant) i = None)
       \<or> (\<exists>i \<in> set (destinationID # sourceIDs). \<exists>j \<in> set (destinationID # sourceIDs). \<exists>a b.
             retrieveStory mongo (id_tenant tenant) i = Some a
             \<and> retrieveStory mongo (id_tenant tenant) j = Some b \<and> siteID a \<noteq> siteID b)
       \<or> (\<exists>i \<in> set (destinationID # sourceIDs). \<exists>a.
             retrieveStory mongo (id_tenant tenant) i = Some a
             \<and> resolveStoryMode (settings a) tenant \<noteq> COMMENTS)"
  shows "\<exists>e. merge resolveStoryMode mongo tenant destinationID sourceIDs = (Inl e, mongo)"
proof -
  let ?ids = "destinationID # sourceIDs"
  let ?fetched = "retrieveManyStories mongo (id_tenant tenant) ?ids"
  let ?found = "map the ?fetched"
  have in_found: "a \<in> set ?found"
    if "i \<in> set ?ids" and "retrieveStory mongo (id_tenant tenant) i = Some a" for i a
    using that unfolding retrieveManyStories_def
    by (metis (no_types, lifting) image_eqI list.set_map option.sel)
  show ?thesis
  proof (cases "length (uniq ?ids) \<noteq> length ?ids")
    case True
    with ne show ?thesis by (simp add: merge_def Let_def)
  next
    case dist: False
    show ?thesis
    proof (cases "isNonNullArray ?fetched")
      case False
      with ne dist show ?thesis by (simp add: merge_def Let_def)
    next
      case nn: True
      then have all: "\<exists>a. retrieveStory mongo (id_tenant tenant) i = Some a"
        if "i \<in> set ?ids" for i
        using that unfolding isNonNullArray_iff retrieveManyStories_def by force
      show ?thesis
      proof (cases "1 < length (uniq (map siteID ?found))")
        case True
        with ne dist nn show ?thesis by (simp add: merge_def Let_def)
      next
        case one: False
        have same_site: "siteID a = siteID b" if "a \<in> set ?found" and "b \<in> set ?found" for a b
        proof (rule ccontr)
          assume "siteID a \<noteq> siteID b"
          with that
          have "\<exists>x \<in> set (map siteID ?found). \<exists>y \<in> set (map siteID ?found). x \<noteq> y"
            by (metis image_eqI list.set_map)
          then have "1 < length (uniq (map siteID ?found))"
            by (simp only: uniq_length_gt_one)
          with one show False by simp
        qed
        from fail have "\<exists>i \<in> set ?ids. \<exists>a. retrieveStory mongo (id_tenant tenant) i = Some a
             \<and> resolveStoryMode (settings a) tenant \<noteq> COMMENTS"
        proof (elim disjE)
          assume "\<exists>i \<in> set ?ids. retrieveStory mongo (id_tenant tenant) i = None"
          with all show ?thesis by fastforce
        next
          assume "\<exists>i \<in> set ?ids. \<exists>j \<in> set ?ids. \<exists>a b.
             retrieveStory mongo (id_tenant tenant) i = Some a
             \<and> retrieveStory mongo (id_tenant tenant) j = Some b \<and> siteID a \<noteq> siteID b"
          then obtain i j a b where ij: "i \<in> set ?ids" "j \<in> set ?ids"
            "retrieveStory mongo (id_tenant tenant) i = Some a"
            "retrieveStory mongo (id_tenant tenant) j = Some b" "siteID a \<noteq> siteID b"
            by blast
          from ij have "a \<in> set ?found" "b \<in> set ?found" by (simp_all only: in_found)
          with same_site ij(5) show ?thesis by blast
        qed
        then obtain i a where ia: "i \<in> set ?ids"
          "retrieveStory mongo (id_tenant tenant) i = Some a"
          "resolveStoryMode (settings a) tenant \<noteq> COMMENTS" by blast
        from ia have "a \<in> set ?found" by (simp only: in_found)
        with ia(3)
        have "list_ex (\<lambda>s. resolveStoryMode (settings s) tenant \<noteq> COMMENTS) ?found"
          unfolding list_ex_iff by blast
        with ne dist nn one show ?thesis by (simp add: merge_def Let_def)
      qed
    qed
  qed
qed

theorem merge_validation_fails_before_mutation_witness:
  "[''S1''] \<noteq> []
   \<and> ((\<exists>i \<in> set [''D'', ''S1'']. retrieveStory exampleCrossSiteDb (id_tenant exampleTenant) i = None)
       \<or> (\<exists>i \<in> set [''D'', ''S1'']. \<exists>j \<in> set [''D'', ''S1'']. \<exists>a b.
             retrieveStory exampleCrossSiteDb (id_tenant exampleTenant) i = Some a
             \<and> retrieveStory exampleCrossSiteDb (id_tenant exampleTenant) j = Some b
             \<and> siteID a \<noteq> siteID b)
       \<or> (\<exists>i \<in> set [''D'', ''S1'']. \<exists>a.
             retrieveStory exampleCrossSiteDb (id_tenant exampleTenant) i = Some a
             \<and> storyModeOrComments (settings a) exampleTenant \<noteq> COMMENTS))
   \<and> (\<exists>e. merge storyModeOrComments exampleCrossSiteDb exampleTenant ''D'' [''S1'']
             = (Inl e, exampleCrossSiteDb))
   \<and> merge storyModeOrComments exampleCrossSiteDb exampleTenant ''D'' [''S1'']
       = (Inl CannotMergeStoriesOnDifferentSites, exampleCrossSiteDb)"
proof -
  have h1: "[''S1''] \<noteq> []" by simp
  have d: "retrieveStory exampleCrossSiteDb (id_tenant exampleTenant) ''D''
             = Some (exampleStory ''D'' ''site'' 2)"
    by (simp add: example_defs exampleCrossSiteDb_def retrieveStory_def findOne_def)
  have s: "retrieveStory exampleCrossSiteDb (id_tenant exampleTenant) ''S1''
             = Some (exampleStory ''S1'' ''other'' 3)"
    by (simp add: example_defs exampleCrossSiteDb_def retrieveStory_def findOne_def)
  have "siteID (exampleStory ''D'' ''site'' 2) \<noteq> siteID (exampleStory ''S1'' ''other'' 3)"
    by (simp add: exampleStory_def)
  with d s
  have h2: "(\<exists>i \<in> set [''D'', ''S1'']. retrieveStory exampleCrossSiteDb (id_tenant exampleTenant) i = None)
       \<or> (\<exists>i \<in> set [''D'', ''S1'']. \<exists>j \<in> set [''D'', ''S1'']. \<exists>a b.
             retrieveStory exampleCrossSiteDb (id_tenant exampleTenant) i = Some a
             \<and> retrieveStory exampleCrossSiteDb (id_tenant exampleTenant) j = Some b
             \<and> siteID a \<noteq> siteID b)
       \<or> (\<exists>i \<in> set [''D'', ''S1'']. \<exists>a.
             retrieveStory exampleCrossSiteDb (id_tenant exampleTenant) i = Some a
             \<and> storyModeOrComments (settings a) exampleTenant \<noteq> COMMENTS)"
    by simp
  have r: "merge storyModeOrComments exampleCrossSiteDb exampleTenant ''D'' [''S1'']
       = (Inl CannotMergeStoriesOnDifferentSites, exampleCrossSiteDb)"
    by (simp add: example_defs exampleCrossSiteDb_def service_defs)
  from merge_validation_fails_before_mutation
         [where sourceIDs = "[''S1'']" and destinationID = "''D''" and mongo = exampleCrossSiteDb
            and tenant = exampleTenant and resolveStoryMode = storyModeOrComments, OF h1 h2]
       h1 h2 r
  show ?thesis by blast
qed

subsection \<open>Merge: the counts of the destination\<close>

text \<open>
  Claim C1. After a successful merge, the comment counts of the destination (of the
  returned story, which is the destination record as stored) are the merged counts of the
  source stories as they were fetched before the merge: status, moderation queue and
  action counts are each the coordinate-wise sum over the sources alone. The counts that
  the destination had before the merge do not enter: they are replaced.
\<close>

theorem merge_counts_are_sum_of_sources:
  assumes ok: "merge resolveStoryMode mongo tenant destinationID sourceIDs
                 = (Inr (Some d), mongo')"
  shows "\<exists>sourceStories.
      map Some sourceStories = retrieveManyStories mongo (id_tenant tenant) sourceIDs
    \<and> commentCounts d =
        \<lparr>action = mergeCommentActionCounts (map (\<lambda>s. action (commentCounts s)) sourceStories),
         status = mergeCommentStatusCount (map (\<lambda>s. status (commentCounts s)) sourceStories),
         moderationQueue = mergeCommentModerationQueueCount
           (map (\<lambda>s. moderationQueue (commentCounts s)) sourceStories)\<rparr>
    \<and> retrieveStory mongo' (id_tenant tenant) destinationID = Some d"
proof -
  let ?tid = "id_tenant tenant"
  let ?ids = "destinationID # sourceIDs"
  let ?fetched = "retrieveManyStories mongo ?tid ?ids"
  let ?found = "map the ?fetched"
  let ?src = "map (\<lambda>i. the (retrieveStory mongo ?tid i)) sourceIDs"
  let ?counts =
    "\<lparr>action = mergeCommentActionCounts (map (\<lambda>s. action (commentCounts s)) ?src),
      status = mergeCommentStatusCount (map (\<lambda>s. status (commentCounts s)) ?src),
      moderationQueue = mergeCommentModerationQueueCount
        (map (\<lambda>s. moderationQueue (commentCounts s)) ?src)\<rparr>"
  let ?q = "\<lambda>s. tenantID s = ?tid \<and> id_story s = destinationID"
  let ?upd = "\<lambda>s. s\<lparr>commentCounts := ?counts\<rparr>"
  let ?isSource = "\<lambda>s. tenantID s = ?tid \<and> id_story s \<in> set sourceIDs"
  let ?comments' =
    "snd (updateMany (\<lambda>c. tenantID c = ?tid \<and> storyID c \<in> set sourceIDs)
            (\<lambda>c. c\<lparr>storyID := destinationID\<rparr>) (comments mongo))"
  let ?actions' =
    "snd (updateMany (\<lambda>a. tenantID a = ?tid \<and> storyID a \<in> set sourceIDs)
            (\<lambda>a. a\<lparr>storyID := destinationID\<rparr>) (commentActions mongo))"
  from ok have ne: "sourceIDs \<noteq> []" by (auto simp: merge_def)
  from ok ne have dist: "length (uniq ?ids) = length ?ids"
    by (auto simp: merge_def Let_def split: if_splits)
  then have dst: "destinationID \<notin> set sourceIDs"
    by (simp only: uniq_length_iff_distinct) simp
  from ok ne dist have nn: "isNonNullArray ?fetched"
    by (auto simp: merge_def Let_def split: if_splits)
  from ok ne dist nn have sites: "\<not> 1 < length (uniq (map siteID ?found))"
    by (auto simp: merge_def Let_def split: if_splits)
  from ok ne dist nn sites
  have modes: "\<not> list_ex (\<lambda>s. resolveStoryMode (settings s) tenant \<noteq> COMMENTS) ?found"
    by (auto simp: merge_def Let_def split: if_splits)
  have tl: "tl ?found = ?src" by (simp add: retrieveManyStories_def comp_def)
  have srcs: "map Some ?src = retrieveManyStories mongo ?tid sourceIDs"
    using nn unfolding isNonNullArray_iff retrieveManyStories_def by auto
  obtain r docs where fu: "findOneAndUpdate ?q ?upd (stories mongo) = (r, docs)"
    by (cases "findOneAndUpdate ?q ?upd (stories mongo)")
  have r: "r = map_option ?upd (List.find ?q (stories mongo))"
    using findOneAndUpdate_fst [of ?q ?upd "stories mongo"] fu by simp
  have fd: "List.find ?q docs = map_option ?upd (List.find ?q (stories mongo))"
    using findOneAndUpdate_find [of ?q ?upd "stories mongo"] fu by simp
  have res: "merge resolveStoryMode mongo tenant destinationID sourceIDs =
      (case r of
         None \<Rightarrow>
           (Inr None,
            mongo\<lparr>stories := docs, comments := ?comments', commentActions := ?actions',
              oplog := oplog mongo @ [MergeManyCommentStories ?tid destinationID sourceIDs,
                MergeManyStoryActions ?tid destinationID sourceIDs,
                UpdateStoryCounts ?tid destinationID]\<rparr>)
       | Some s \<Rightarrow>
           (Inr (Some s),
            mongo\<lparr>stories := filter (\<lambda>s. \<not> ?isSource s) docs,
              comments := ?comments', commentActions := ?actions',
              oplog := oplog mongo @ [MergeManyCommentStories ?tid destinationID sourceIDs,
                MergeManyStoryActions ?tid destinationID sourceIDs,
                UpdateStoryCounts ?tid destinationID, RemoveStories ?tid sourceIDs]\<rparr>))"
    using ne dist nn sites modes fu
    by (simp add: merge_def Let_def tl mergeManyCommentStories_def mergeManyStoryActions_def
        updateStoryCounts_def removeStories_def deleteMany_def updateMany_def
        split: option.splits)
  from ok res have rd: "r = Some d" by (auto split: option.splits)
  from ok res rd have st: "stories mongo' = filter (\<lambda>s. \<not> ?isSource s) docs"
    by auto
  from rd r obtain s0 where s0: "List.find ?q (stories mongo) = Some s0" "d = ?upd s0"
    by auto
  then have cc: "commentCounts d = ?counts" by simp
  have "retrieveStory mongo' ?tid destinationID
          = List.find ?q (filter (\<lambda>s. \<not> ?isSource s) docs)"
    by (simp add: retrieveStory_def findOne_def st)
  also have "\<dots> = List.find ?q docs" using dst by (intro find_filter_keeps) auto
  also have "\<dots> = Some d" using fd r rd by simp
  finally have "retrieveStory mongo' ?tid destinationID = Some d" .
  with srcs cc show ?thesis by blast
qed

text \<open>
  The scenario of the spec as the witness: \<open>D\<close> had 2 approved comments, the sources 3
  and 1; after the merge \<open>D\<close> has 4, the sources are gone and their comments and actions
  point to \<open>D\<close>.
\<close>

theorem merge_counts_are_sum_of_sources_witness:
  "merge storyModeOrComments exampleDb exampleTenant ''D'' [''S1'', ''S2'']
     = (Inr (Some (exampleStory ''D'' ''site'' 4)), exampleMergedDb)
   \<and> (\<exists>sourceStories.
        map Some sourceStories
          = retrieveManyStories exampleDb (id_tenant exampleTenant) [''S1'', ''S2'']
      \<and> commentCounts (exampleStory ''D'' ''site'' 4) =
          \<lparr>action = mergeCommentActionCounts (map (\<lambda>s. action (commentCounts s)) sourceStories),
           status = mergeCommentStatusCount (map (\<lambda>s. status (commentCounts s)) sourceStories),
           moderationQueue = mergeCommentModerationQueueCount
             (map (\<lambda>s. moderationQueue (commentCounts s)) sourceStories)\<rparr>
      \<and> retrieveStory exampleMergedDb (id_tenant exampleTenant) ''D''
          = Some (exampleStory ''D'' ''site'' 4))
   \<and> APPROVED (status (commentCounts (exampleStory ''D'' ''site'' 4))) = 4"
proof -
  have h: "merge storyModeOrComments exampleDb exampleTenant ''D'' [''S1'', ''S2'']
     = (Inr (Some (exampleStory ''D'' ''site'' 4)), exampleMergedDb)"
    by (simp add: example_defs exampleMergedDb_def service_defs)
  have a: "APPROVED (status (commentCounts (exampleStory ''D'' ''site'' 4))) = 4"
    by (simp add: example_defs)
  from merge_counts_are_sum_of_sources [OF h] h a show ?thesis by blast
qed

subsection \<open>The algebra of the count mergers\<close>

text \<open>
  The mergers agree with the empty count structures on no input, and merging a
  concatenation is merging the two merged parts.
\<close>

lemma mergeCommentStatusCount_Nil: "mergeCommentStatusCount [] = createEmptyCommentStatusCounts"
  by (simp add: mergeCommentStatusCount_def createEmptyCommentStatusCounts_def)

lemma mergeCommentModerationQueueCount_Nil:
  "mergeCommentModerationQueueCount [] = createEmptyCommentModerationQueueCounts"
  by (simp add: mergeCommentModerationQueueCount_def createEmptyCommentModerationQueueCounts_def
      createEmptyCommentModerationCountsPerQueue_def)

lemma mergeCommentActionCounts_Nil:
  "mergeCommentActionCounts [] = action createEmptyRelatedCommentCounts"
  by (simp add: mergeCommentActionCounts_def createEmptyRelatedCommentCounts_def)

lemma calculateTotalCommentCount_empty:
  "calculateTotalCommentCount createEmptyCommentStatusCounts = 0"
  by (simp add: calculateTotalCommentCount_def createEmptyCommentStatusCounts_def)

lemma mergeCommentStatusCount_append:
  "mergeCommentStatusCount (xs @ ys)
     = mergeCommentStatusCount [mergeCommentStatusCount xs, mergeCommentStatusCount ys]"
  by (simp add: mergeCommentStatusCount_def)

lemma mergeCommentModerationQueueCount_append:
  "mergeCommentModerationQueueCount (xs @ ys)
     = mergeCommentModerationQueueCount
         [mergeCommentModerationQueueCount xs, mergeCommentModerationQueueCount ys]"
  by (simp add: mergeCommentModerationQueueCount_def)

lemma countOrZero_merge:
  "countOrZero (mergeCommentActionCounts xs) key = sum_list (map (\<lambda>c. countOrZero c key) xs)"
proof (cases "list_ex (\<lambda>c. c key \<noteq> None) xs")
  case True
  then show ?thesis by (simp add: mergeCommentActionCounts_def countOrZero_def)
next
  case False
  then have "\<forall>c \<in> set xs. countOrZero c key = 0"
    by (auto simp: list_ex_iff countOrZero_def)
  then have "sum_list (map (\<lambda>c. countOrZero c key) xs) = 0"
    by (induction xs) auto
  with False show ?thesis by (simp add: mergeCommentActionCounts_def countOrZero_def)
qed

lemma mergeCommentActionCounts_append:
  "mergeCommentActionCounts (xs @ ys)
     = mergeCommentActionCounts [mergeCommentActionCounts xs, mergeCommentActionCounts ys]"
proof
  fix key
  have "list_ex (\<lambda>c. c key \<noteq> None) (xs @ ys) \<longleftrightarrow>
      mergeCommentActionCounts xs key \<noteq> None \<or> mergeCommentActionCounts ys key \<noteq> None"
    by (auto simp: mergeCommentActionCounts_def list_ex_iff)
  then show "mergeCommentActionCounts (xs @ ys) key
     = mergeCommentActionCounts [mergeCommentActionCounts xs, mergeCommentActionCounts ys] key"
    using countOrZero_merge [of xs key] countOrZero_merge [of ys key]
    by (simp add: mergeCommentActionCounts_def [of "xs @ ys"]
        mergeCommentActionCounts_def [of "[mergeCommentActionCounts xs, mergeCommentActionCounts ys]"])
qed

lemma mergeCommentStatusCount_laws:
  "mergeCommentStatusCount [a, mergeCommentStatusCount [b, c]]
     = mergeCommentStatusCount [mergeCommentStatusCount [a, b], c]"
  "mergeCommentStatusCount [mergeCommentStatusCount [a, b], c]
     = mergeCommentStatusCount [a, b, c]"
  "mergeCommentStatusCount [a, b] = mergeCommentStatusCount [b, a]"
  by (simp_all add: mergeCommentStatusCount_def)

lemma mergeCommentModerationQueueCount_laws:
  "mergeCommentModerationQueueCount [a, mergeCommentModerationQueueCount [b, c]]
     = mergeCommentModerationQueueCount [mergeCommentModerationQueueCount [a, b], c]"
  "mergeCommentModerationQueueCount [mergeCommentModerationQueueCount [a, b], c]
     = mergeCommentModerationQueueCount [a, b, c]"
  "mergeCommentModerationQueueCount [a, b] = mergeCommentModerationQueueCount [b, a]"
  by (simp_all add: mergeCommentModerationQueueCount_def)

lemma mergeCommentActionCounts_laws:
  "mergeCommentActionCounts [a, mergeCommentActionCounts [b, c]]
     = mergeCommentActionCounts [mergeCommentActionCounts [a, b], c]"
  "mergeCommentActionCounts [mergeCommentActionCounts [a, b], c]
     = mergeCommentActionCounts [a, b, c]"
  "mergeCommentActionCounts [a, b] = mergeCommentActionCounts [b, a]"
  by (auto simp: mergeCommentActionCounts_def countOrZero_def fun_eq_iff split: option.splits)

text \<open>
  Claim C9. For count structures \<open>a\<close>, \<open>b\<close>, \<open>c\<close> of one kind (status counts
  \<open>s\<close>, moderation-queue counts \<open>q\<close>, action counts \<open>k\<close>), the variadic merge is
  associative, flattening included, and commutative:
  merge(a, merge(b, c)) = merge(merge(a, b), c) = merge(a, b, c) and
  merge(a, b) = merge(b, a). The counts are integers.
\<close>

theorem count_merge_associative_commutative:
  "mergeCommentStatusCount [sa, mergeCommentStatusCount [sb, sc]]
     = mergeCommentStatusCount [mergeCommentStatusCount [sa, sb], sc]
   \<and> mergeCommentStatusCount [mergeCommentStatusCount [sa, sb], sc]
     = mergeCommentStatusCount [sa, sb, sc]
   \<and> mergeCommentStatusCount [sa, sb] = mergeCommentStatusCount [sb, sa]
   \<and> mergeCommentModerationQueueCount [qa, mergeCommentModerationQueueCount [qb, qc]]
     = mergeCommentModerationQueueCount [mergeCommentModerationQueueCount [qa, qb], qc]
   \<and> mergeCommentModerationQueueCount [mergeCommentModerationQueueCount [qa, qb], qc]
     = mergeCommentModerationQueueCount [qa, qb, qc]
   \<and> mergeCommentModerationQueueCount [qa, qb] = mergeCommentModerationQueueCount [qb, qa]
   \<and> mergeCommentActionCounts [ka, mergeCommentActionCounts [kb, kc]]
     = mergeCommentActionCounts [mergeCommentActionCounts [ka, kb], kc]
   \<and> mergeCommentActionCounts [mergeCommentActionCounts [ka, kb], kc]
     = mergeCommentActionCounts [ka, kb, kc]
   \<and> mergeCommentActionCounts [ka, kb] = mergeCommentActionCounts [kb, ka]"
  by (intro conjI mergeCommentStatusCount_laws mergeCommentModerationQueueCount_laws
      mergeCommentActionCounts_laws)

end
